theory Spec2Isabelle
  imports Main "HOL-Library.Word"
begin

section \<open>A SOCKS5 server: credentials, connection errors, construction, serving\<close>

text \<open>
  The development follows the Go package \<open>socks5\<close>: \<open>credentials.go\<close>, the file
  defining \<open>Error\<close> and \<open>wrapError\<close>, and \<open>socks5.go\<close> (\<open>Config\<close>, \<open>Server\<close>,
  \<open>New\<close>, \<open>Serve\<close>, \<open>Shutdown\<close>, \<open>ServeConn\<close>). Go strings are \<open>string\<close>, a
  \<open>uint8\<close> is an \<open>8 word\<close>, a \<open>map[string]string\<close> is a map
  \<open>string \<rightharpoonup> string\<close>, an interface value that may be \<open>nil\<close> is an \<open>option\<close>.
\<close>

type_synonym byte = "8 word"

subsection \<open>credentials.go\<close>

text \<open>
  \<open>type StaticCredentials map[string]string\<close>. Reading a Go map (also a nil one)
  with the two-value form yields the stored value and \<open>ok\<close>, which is the lookup
  of a HOL map.
\<close>

type_synonym StaticCredentials = "string \<rightharpoonup> string"

definition StaticCredentials_Valid :: "StaticCredentials \<Rightarrow> string \<Rightarrow> string \<Rightarrow> bool" where
  "StaticCredentials_Valid s user password =
     (case s user of
        None \<Rightarrow> False
      | Some pass \<Rightarrow> password = pass)"

text \<open>
  \<open>type CredentialStoreFunc func(user, password string) bool\<close>; the interface
  \<open>CredentialStore\<close> has the two implementations of this file.
\<close>

datatype CredentialStore =
    StaticCredentialsStore StaticCredentials
  | CredentialStoreFunc "string \<Rightarrow> string \<Rightarrow> bool"

fun Valid :: "CredentialStore \<Rightarrow> string \<Rightarrow> string \<Rightarrow> bool" where
  "Valid (CredentialStoreFunc f) user password = f user password"
| "Valid (StaticCredentialsStore s) user password = StaticCredentials_Valid s user password"

subsection \<open>Connections, addresses and requests as the server sees them\<close>

text \<open>
  A \<open>net.Addr\<close> is observed in two ways: through \<open>String()\<close> (by \<open>%s\<close>) and through
  the type assertion to \<open>*net.TCPAddr\<close>, which exposes \<open>IP\<close> and \<open>Port\<close>. The text
  that \<open>String()\<close> returns is the library's, so an address carries it.
\<close>

datatype Addr =
    TCPAddr (tcp_IP: "byte list") (tcp_Port: nat) (Addr_String: string)
  | OtherAddr (Addr_String: string)

text \<open>The handle of a \<open>net.Conn\<close>: what \<open>RemoteAddr()\<close> and \<open>LocalAddr()\<close> return.\<close>

record netconn =
  RemoteAddr :: Addr
  LocalAddr :: Addr

text \<open>
  Modelled from the spec: \<open>AddrSpec\<close> is declared in a file that is not part of the
  sources at hand. The spec's data model gives it a domain name or an IP, and a port;
  \<open>ServeConn\<close> sets \<open>IP\<close> and \<open>Port\<close>.
\<close>

record AddrSpec =
  FQDN :: string
  IP :: "byte list"
  Port :: nat

text \<open>
  Modelled from the spec: \<open>AuthContext\<close> (declared with the authenticators, not in
  the sources at hand) is the method code used and a payload.
\<close>

record AuthContext =
  Method :: byte
  Payload :: "(string \<times> string) list"

text \<open>
  Modelled from the spec: \<open>Request\<close> (declared with \<open>NewRequest\<close>, not in the sources
  at hand) has the command, the destination, the connection's \<open>AuthContext\<close> and the
  client's remote address. \<open>ServeConn\<close> assigns the last two, both pointers.
\<close>

record Request =
  Command :: byte
  DestAddr :: AddrSpec
  Request_AuthContext :: "AuthContext option"
  Request_RemoteAddr :: "AddrSpec option"

subsection \<open>Errors\<close>

text \<open>
  A Go \<open>error\<close> value. \<open>ErrorString m\<close> is an error that only has a message
  (\<open>errors.New\<close>, \<open>fmt.Errorf\<close> without \<open>%w\<close>, an error of the network library);
  \<open>Errorf_w prefix cause\<close> is \<open>fmt.Errorf(prefix + "%w", cause)\<close>, which keeps the
  cause for \<open>Unwrap\<close>; \<open>ConnError\<close> is the struct \<open>Error\<close> of this package, built by
  \<open>wrapError\<close>:
  \<^verbatim>\<open>
  type Error struct {
      Err     error
      Conn    net.Conn
      Request *Request
  }
  \<close>
  The package variable \<open>unrecognizedAddrType\<close> is compared by identity
  (\<open>err == unrecognizedAddrType\<close>), so it is a constructor of its own: an error with
  the same message made elsewhere is a different value.
\<close>

datatype goerror =
    ErrorString string
  | unrecognizedAddrType
  | Errorf_w string goerror
  | ConnError (Err: goerror) (Conn: netconn) (Request: "Request option")

definition wrapError :: "goerror \<Rightarrow> netconn \<Rightarrow> Request option \<Rightarrow> goerror" where
  "wrapError err conn req = ConnError err conn req"

text \<open>
  Modelled from the spec: the message of \<open>unrecognizedAddrType\<close> (its declaration is
  not in the sources at hand; the spec calls the failure "unrecognized address type").
\<close>

definition unrecognizedAddrType_message :: string where
  "unrecognizedAddrType_message = ''unrecognized address type''"

text \<open>
  The method \<open>Error()\<close> of an error. For the struct \<open>Error\<close>:
  \<^verbatim>\<open>
  return fmt.Sprintf("%s -> %s: %s", e.Conn.RemoteAddr(), e.Conn.LocalAddr(), e.Err)
  \<close>
  where \<open>%s\<close> prints an address by \<open>String()\<close> and an error by \<open>Error()\<close>.
\<close>

fun Error :: "goerror \<Rightarrow> string" where
  "Error (ErrorString m) = m"
| "Error unrecognizedAddrType = unrecognizedAddrType_message"
| "Error (Errorf_w prefix cause) = prefix @ Error cause"
| "Error (ConnError err conn req) =
     Addr_String (RemoteAddr conn) @ '' -> '' @ Addr_String (LocalAddr conn) @ '': '' @ Error err"

text \<open>\<open>Unwrap()\<close>; \<open>None\<close> for an error that has no such method.\<close>

fun Unwrap :: "goerror \<Rightarrow> goerror option" where
  "Unwrap (ConnError err conn req) = Some err"
| "Unwrap (Errorf_w prefix cause) = Some cause"
| "Unwrap e = None"

text \<open>\<open>fmt.Errorf(prefix + "%v", err)\<close>: the text of \<open>err\<close> is copied, the cause is not kept.\<close>

definition Errorf_v :: "string \<Rightarrow> goerror \<Rightarrow> goerror" where
  "Errorf_v prefix err = ErrorString (prefix @ Error err)"

text \<open>Decimal text of a number, as \<open>%v\<close> prints the elements of a \<open>[]byte\<close>.\<close>

definition digit :: "nat \<Rightarrow> char" where
  "digit n = ''0123456789'' ! n"

fun decimal :: "nat \<Rightarrow> string" where
  "decimal n =
     (if n < 10 then [digit n]
      else decimal (n div 10) @ [digit (n mod 10)])"

declare decimal.simps [simp del]

text \<open>\<open>%v\<close> of a \<open>[]byte\<close>: the elements in decimal, separated by spaces, in brackets.\<close>

fun spaced :: "string list \<Rightarrow> string" where
  "spaced [] = []"
| "spaced [w] = w"
| "spaced (w # ws) = w @ '' '' @ spaced ws"

definition format_bytes :: "byte list \<Rightarrow> string" where
  "format_bytes bs = ''['' @ spaced (map (\<lambda>b. decimal (unat b)) bs) @ '']''"

subsection \<open>socks5.go: configuration and server\<close>

definition socks5Version :: byte where
  "socks5Version = 5"

text \<open>
  Modelled from the spec: the interface \<open>Authenticator\<close>, its method \<open>GetCode\<close> and the
  two provided strategies are declared in a file that is not part of the sources at
  hand. By the spec's wire format the server answers \<open>05 00\<close> when it chooses no-auth
  and \<open>05 02\<close> when it chooses username/password, so these are the method codes.
  \<open>CustomAuthenticator c\<close> is a caller's own implementation whose \<open>GetCode\<close> is \<open>c\<close>.
  The username/password strategy holds the \<open>CredentialStore\<close> interface value it was
  built with.
\<close>

datatype Authenticator =
    NoAuthAuthenticator
  | UserPassAuthenticator "CredentialStore option"
  | CustomAuthenticator byte

text \<open>
  Modelled from the spec: \<open>GetCode\<close>, the method code under which the server
  registers and announces a strategy (0 for no-auth, 2 for username/password).
\<close>

fun GetCode :: "Authenticator \<Rightarrow> byte" where
  "GetCode NoAuthAuthenticator = 0"
| "GetCode (UserPassAuthenticator creds) = 2"
| "GetCode (CustomAuthenticator c) = c"

text \<open>
  Modelled from the spec: \<open>NameResolver\<close>, whose default \<open>DNSResolver\<close> is the ambient
  DNS; its declaration is not in the sources at hand.
\<close>

datatype NameResolver = DNSResolver | CustomResolver string

text \<open>
  Modelled from the spec: \<open>RuleSet\<close>, whose default \<open>PermitAll()\<close> permits every
  command; its declaration is not in the sources at hand.
\<close>

datatype RuleSet = PermitAll | CustomRuleSet string

text \<open>Strategies that \<open>New\<close>, \<open>Serve\<close>, \<open>Shutdown\<close> and \<open>ServeConn\<close> only carry along.\<close>

typedecl AddressRewriter
typedecl BaseContextFunc
typedecl DialFunc

text \<open>
  \<open>type Config struct\<close>. A slice is a list (a nil slice and an empty one both have
  length 0), an interface or function field that may be nil is an \<open>option\<close>, and an
  element of \<open>AuthMethods\<close> is an interface value, so it may be nil as well. The
  callback \<open>ErrorHandler func(error)\<close> acts on the caller's state \<open>'w\<close>.
\<close>

record 'w Config =
  AuthMethods :: "Authenticator option list"
  AuthMethodsSort :: "(byte list \<Rightarrow> byte list) option"
  Credentials :: "CredentialStore option"
  Resolver :: "NameResolver option"
  Rules :: "RuleSet option"
  Rewriter :: "AddressRewriter option"
  BindIP :: "byte list"
  ErrorHandler :: "(goerror \<Rightarrow> 'w \<Rightarrow> 'w) option"
  BaseContext :: "BaseContextFunc option"
  Dial :: "DialFunc option"

text \<open>\<open>chan struct{}\<close> on which nothing is ever sent: it is open or closed.\<close>

datatype chan = ChanOpen | ChanClosed

text \<open>
  \<open>type Server struct\<close>. The listener is a reference into a store of listeners
  (\<open>None\<close> is nil). The mutex \<open>lock\<close> is held only inside \<open>Shutdown\<close> and around
  the store to \<open>listener\<close> in \<open>ListenAndServe\<close>, and released on every way out
  (\<open>defer\<close>), so each of the two is one atomic step and the mutex has no field.
\<close>

record 'w Server =
  config :: "'w Config"
  authMethods :: "byte \<rightharpoonup> Authenticator"
  shutdown :: chan
  listener :: "nat option"

datatype panic = Panic string

text \<open>
  The loop of \<open>New\<close>:
  \<^verbatim>\<open>
  for _, a := range conf.AuthMethods {
      server.authMethods[a.GetCode()] = a
  }
  \<close>
  Calling a method on a nil interface value panics.
\<close>

fun register :: "Authenticator option list \<Rightarrow> (byte \<rightharpoonup> Authenticator)
    \<Rightarrow> panic + (byte \<rightharpoonup> Authenticator)" where
  "register [] m = Inr m"
| "register (None # as) m = Inl (Panic ''invalid memory address or nil pointer dereference'')"
| "register (Some a # as) m = register as (m(GetCode a \<mapsto> a))"

text \<open>
  \<open>func New(conf *Config) (*Server, error)\<close>. \<open>conf\<close> is updated in place and the
  server keeps the pointer, so the server's \<open>config\<close> is the updated configuration.
  The result is the pair that Go returns (the pointer and the error, each possibly
  nil), or the panic.
\<close>

definition New :: "'w Config \<Rightarrow> panic + ('w Server option \<times> goerror option)" where
  "New conf =
     (let conf1 =
            (if length (AuthMethods conf) = 0 then
               (if Credentials conf \<noteq> None
                then conf\<lparr>AuthMethods := [Some (UserPassAuthenticator (Credentials conf))]\<rparr>
                else conf\<lparr>AuthMethods := [Some NoAuthAuthenticator]\<rparr>)
             else conf);
          conf2 = (if Resolver conf1 = None then conf1\<lparr>Resolver := Some DNSResolver\<rparr> else conf1);
          conf3 = (if Rules conf2 = None then conf2\<lparr>Rules := Some PermitAll\<rparr> else conf2);
          server = \<lparr>config = conf3, authMethods = Map.empty, shutdown = ChanOpen, listener = None\<rparr>
      in case register (AuthMethods conf3) (authMethods server) of
           Inl p \<Rightarrow> Inl p
         | Inr m \<Rightarrow> Inr (Some (server\<lparr>authMethods := m\<rparr>), None))"

subsection \<open>socks5.go: connections, listeners and Shutdown\<close>

text \<open>
  A \<open>net.Conn\<close> as \<open>ServeConn\<close> and its helpers use it: the handle, the reader
  \<open>bufConn\<close> (the bytes the client has sent and the server has not read yet, and the
  error a read reports once they are used up), the bytes written to the client, and
  the number of calls of \<open>Close\<close>.
\<close>

record reader =
  pending :: "byte list"
  read_err :: goerror

record conn =
  handle :: netconn
  bufConn :: reader
  written :: "byte list"
  closes :: nat

text \<open>
  A \<open>net.Listener\<close>: whether \<open>Close\<close> was called, and what the next calls of
  \<open>Accept\<close> return while it is open (with none left, \<open>Accept\<close> blocks).
\<close>

datatype accept_result = AcceptConn conn | AcceptErr goerror

record Listener =
  lclosed :: bool
  incoming :: "accept_result list"

definition Listener_Close :: "Listener \<Rightarrow> Listener" where
  "Listener_Close l = l\<lparr>lclosed := True\<rparr>"

text \<open>
  \<open>func (s *Server) Shutdown()\<close>:
  \<^verbatim>\<open>
  close(s.shutdown)
  if s.listener != nil {
      s.listener.Close()
  }
  \<close>
  \<open>close\<close> of a closed channel panics. The result is the panic, if any, the server
  and the store of listeners.
\<close>

definition Shutdown :: "'w Server \<Rightarrow> (nat \<Rightarrow> Listener)
    \<Rightarrow> panic option \<times> 'w Server \<times> (nat \<Rightarrow> Listener)" where
  "Shutdown s h =
     (if shutdown s = ChanClosed then (Some (Panic ''close of closed channel''), s, h)
      else
        (let s' = s\<lparr>shutdown := ChanClosed\<rparr>
         in case listener s' of
              None \<Rightarrow> (None, s', h)
            | Some r \<Rightarrow> (None, s', h(r := Listener_Close (h r)))))"

subsection \<open>socks5.go: ServeConn\<close>

text \<open>
  The helpers that \<open>ServeConn\<close> calls (\<open>authenticate\<close>, \<open>NewRequest\<close>, \<open>sendReply\<close>,
  \<open>handleRequest\<close>) are defined in files that are not part of the sources at hand, so
  \<open>ServeConn\<close> takes them as parameters. Each acts on what the call hands it:
  \<open>authenticate(conn, bufConn)\<close> on the writer and the reader, \<open>NewRequest(bufConn)\<close>
  on the reader alone, \<open>sendReply(conn, code, addr)\<close> on the writer alone,
  \<open>handleRequest(request, conn)\<close> on the writer and on the reader the request was
  decoded from. A helper returns its error (or value) and what it left of the reader
  and the writer. \<open>authenticate\<close> returns a pointer and an error; the pointer is used
  only when the error is nil.
\<close>

record 'w helpers =
  authenticate :: "'w Server \<Rightarrow> byte list \<Rightarrow> reader
      \<Rightarrow> (goerror + AuthContext option) \<times> byte list \<times> reader"
  NewRequest :: "reader \<Rightarrow> (goerror + Request) \<times> reader"
  sendReply :: "byte list \<Rightarrow> byte \<Rightarrow> AddrSpec option \<Rightarrow> goerror option \<times> byte list"
  handleRequest :: "'w Server \<Rightarrow> Request \<Rightarrow> netconn \<Rightarrow> byte list \<Rightarrow> reader
      \<Rightarrow> goerror option \<times> byte list \<times> reader"

text \<open>
  Modelled from the spec: the reply code \<open>addrTypeNotSupported\<close> (declared beside
  \<open>sendReply\<close>); the spec's table of reply codes gives 8 to "address type not
  supported".
\<close>

definition addrTypeNotSupported :: byte where
  "addrTypeNotSupported = 8"

text \<open>
  \<open>bufConn.Read(version)\<close> with \<open>version := []byte{0}\<close>: the content of \<open>version[0]\<close>
  after the call, the error, and the reader. With a byte at hand the read delivers it
  and no error; with none it reports the reader's error and leaves the 0.
\<close>

definition Read_version :: "reader \<Rightarrow> byte \<times> goerror option \<times> reader" where
  "Read_version r =
     (case pending r of
        [] \<Rightarrow> (0, Some (read_err r), r)
      | b # bs \<Rightarrow> (b, None, r\<lparr>pending := bs\<rparr>))"

definition Conn_Close :: "conn \<Rightarrow> conn" where
  "Conn_Close c = c\<lparr>closes := closes c + 1\<rparr>"

text \<open>
  The body of \<open>ServeConn\<close> after \<open>defer conn.Close()\<close>: the returned error and the
  connection as the body leaves it.
\<close>

definition ServeConn_body :: "'w helpers \<Rightarrow> 'w Server \<Rightarrow> conn \<Rightarrow> goerror option \<times> conn" where
  "ServeConn_body hs s c =
     (case Read_version (bufConn c) of
        (v, Some err, r1) \<Rightarrow>
          (Some (wrapError (Errorf_w ''read version byte: '' err) (handle c) None),
           c\<lparr>bufConn := r1\<rparr>)
      | (v, None, r1) \<Rightarrow>
          if v \<noteq> socks5Version then
            (Some (wrapError
                     (ErrorString (''unsupported socks version: '' @ format_bytes [v]))
                     (handle c) None),
             c\<lparr>bufConn := r1\<rparr>)
          else
            (case authenticate hs s (written c) r1 of
               (Inl err, w2, r2) \<Rightarrow>
                 (Some (wrapError (Errorf_w ''authenticate: '' err) (handle c) None),
                  c\<lparr>bufConn := r2, written := w2\<rparr>)
             | (Inr authContext, w2, r2) \<Rightarrow>
                 (case NewRequest hs r2 of
                    (Inl err, r3) \<Rightarrow>
                      if err = unrecognizedAddrType then
                        (case sendReply hs w2 addrTypeNotSupported None of
                           (Some err', w3) \<Rightarrow>
                             (Some (wrapError (Errorf_v ''send reply: '' err') (handle c) None),
                              c\<lparr>bufConn := r3, written := w3\<rparr>)
                         | (None, w3) \<Rightarrow>
                             (Some (wrapError (Errorf_w ''read dst addr: '' err) (handle c) None),
                              c\<lparr>bufConn := r3, written := w3\<rparr>))
                      else
                        (Some (wrapError (Errorf_w ''read dst addr: '' err) (handle c) None),
                         c\<lparr>bufConn := r3, written := w2\<rparr>)
                  | (Inr request, r3) \<Rightarrow>
                      (let request1 = request\<lparr>Request_AuthContext := authContext\<rparr>;
                           request2 =
                             (case RemoteAddr (handle c) of
                                TCPAddr ip port text \<Rightarrow>
                                  request1\<lparr>Request_RemoteAddr :=
                                    Some \<lparr>FQDN = [], IP = ip, Port = port\<rparr>\<rparr>
                              | OtherAddr text \<Rightarrow> request1)
                       in case handleRequest hs s request2 (handle c) w2 r3 of
                            (Some err, w4, r4) \<Rightarrow>
                              (Some (wrapError (Errorf_v ''handle request: '' err)
                                       (handle c) (Some request2)),
                               c\<lparr>bufConn := r4, written := w4\<rparr>)
                          | (None, w4, r4) \<Rightarrow> (None, c\<lparr>bufConn := r4, written := w4\<rparr>)))))"

text \<open>
  \<open>func (s *Server) ServeConn(conn net.Conn) error\<close>: the body, then the deferred
  \<open>conn.Close()\<close>, whose own result is dropped.
\<close>

definition ServeConn :: "'w helpers \<Rightarrow> 'w Server \<Rightarrow> conn \<Rightarrow> goerror option \<times> conn" where
  "ServeConn hs s c = (case ServeConn_body hs s c of (res, c') \<Rightarrow> (res, Conn_Close c'))"

subsection \<open>socks5.go: Serve\<close>

text \<open>
  \<open>l.Accept()\<close>: \<open>None\<close> when the call blocks. A closed listener reports the
  network library's error for a closed connection.
\<close>

definition net_ErrClosed :: goerror where
  "net_ErrClosed = ErrorString ''use of closed network connection''"

definition Accept :: "Listener \<Rightarrow> (accept_result \<times> Listener) option" where
  "Accept l =
     (if lclosed l then Some (AcceptErr net_ErrClosed, l)
      else case incoming l of
             [] \<Rightarrow> None
           | a # as \<Rightarrow> Some (a, l\<lparr>incoming := as\<rparr>))"

text \<open>
  The goroutine that \<open>Serve\<close> starts for each accepted connection:
  \<^verbatim>\<open>
  if err := s.ServeConn(conn); err != nil && s.config.ErrorHandler != nil {
      s.config.ErrorHandler(err)
  }
  \<close>
  Given what \<open>ServeConn\<close> returned, its effect on the caller's state.
\<close>

definition conn_task :: "(goerror \<Rightarrow> 'w \<Rightarrow> 'w) option \<Rightarrow> goerror option \<Rightarrow> 'w \<Rightarrow> 'w" where
  "conn_task handler res w =
     (case res of
        None \<Rightarrow> w
      | Some err \<Rightarrow> (case handler of None \<Rightarrow> w | Some f \<Rightarrow> f err w))"

text \<open>
  \<open>Serve\<close> runs two loops that meet on the unbuffered channels \<open>conns\<close> and \<open>errs\<close>.
  The accepting goroutine is calling \<open>Accept\<close>, or is blocked in \<open>conns <- conn\<close> or
  in \<open>errs <- err\<close>, or has returned (after its send on \<open>errs\<close> was received). The
  main loop is at its \<open>select\<close> (coming to it, or waiting in it while no case can
  proceed) or has returned \<open>Serve\<close>'s result.
\<close>

datatype acceptor = Accepting | SendingConn conn | SendingErr goerror | AcceptorReturned

datatype loop = Selecting | Returned "goerror option"

record 'w serving =
  srv :: "'w Server"
  listeners :: "nat \<Rightarrow> Listener"
  lis :: nat
  acceptor :: acceptor
  loop :: loop
  active :: "conn list"
  served :: "conn list"
  world :: 'w
  crashed :: "panic option"

text \<open>
  The steps of a run. \<open>DoAccept\<close>: the accepting goroutine's call of \<open>Accept\<close>
  returns. \<open>RecvConn\<close>, \<open>RecvErr\<close>, \<open>RecvShutdown\<close>: the \<open>select\<close> takes that case; a
  case can be taken when its channel is ready (a sender is blocked on \<open>conns\<close> or
  \<open>errs\<close>; \<open>shutdown\<close> is closed), and with several ready Go takes any one of them.
  \<open>ConnDone k\<close>: the goroutine of the \<open>k\<close>-th connection being served finishes
  (\<open>ServeConn\<close> returns and the error, if any, goes to the handler).
  \<open>CallShutdown\<close>: some other goroutine calls \<open>s.Shutdown()\<close>; a panic there ends the
  program.
\<close>

datatype label = DoAccept | RecvConn | RecvErr | RecvShutdown | ConnDone nat | CallShutdown

definition fire :: "'w helpers \<Rightarrow> label \<Rightarrow> 'w serving \<Rightarrow> 'w serving option" where
  "fire hs a st =
     (if crashed st \<noteq> None then None
      else case a of
        DoAccept \<Rightarrow>
          (if acceptor st = Accepting then
             (case Accept (listeners st (lis st)) of
                None \<Rightarrow> None
              | Some (AcceptConn c, l') \<Rightarrow>
                  Some (st\<lparr>listeners := (listeners st)(lis st := l'), acceptor := SendingConn c\<rparr>)
              | Some (AcceptErr err, l') \<Rightarrow>
                  Some (st\<lparr>listeners := (listeners st)(lis st := l'), acceptor := SendingErr err\<rparr>))
           else None)
      | RecvConn \<Rightarrow>
          (case (loop st, acceptor st) of
             (Selecting, SendingConn c) \<Rightarrow>
               Some (st\<lparr>acceptor := Accepting, active := active st @ [c]\<rparr>)
           | _ \<Rightarrow> None)
      | RecvErr \<Rightarrow>
          (case (loop st, acceptor st) of
             (Selecting, SendingErr err) \<Rightarrow>
               Some (st\<lparr>acceptor := AcceptorReturned, loop := Returned (Some err)\<rparr>)
           | _ \<Rightarrow> None)
      | RecvShutdown \<Rightarrow>
          (if loop st = Selecting \<and> shutdown (srv st) = ChanClosed
           then Some (st\<lparr>loop := Returned None\<rparr>)
           else None)
      | ConnDone k \<Rightarrow>
          (if k < length (active st) then
             (case ServeConn hs (srv st) (active st ! k) of
                (res, c') \<Rightarrow>
                  Some (st\<lparr>active := take k (active st) @ drop (Suc k) (active st),
                           served := served st @ [c'],
                           world := conn_task (ErrorHandler (config (srv st))) res (world st)\<rparr>))
           else None)
      | CallShutdown \<Rightarrow>
          (case Shutdown (srv st) (listeners st) of
             (p, s', h') \<Rightarrow> Some (st\<lparr>srv := s', listeners := h', crashed := p\<rparr>)))"

fun run :: "'w helpers \<Rightarrow> label list \<Rightarrow> 'w serving \<Rightarrow> 'w serving option" where
  "run hs [] st = Some st"
| "run hs (a # as) st = (case fire hs a st of None \<Rightarrow> None | Some st' \<Rightarrow> run hs as st')"

text \<open>
  \<open>func (s *Server) Serve(l net.Listener) error\<close>, once the two channels are made and
  the accepting goroutine is started: the main loop comes to its \<open>select\<close> for the
  first time. \<open>h\<close> is the store of listeners, \<open>w\<close> the caller's state.
\<close>

definition Serve :: "'w Server \<Rightarrow> (nat \<Rightarrow> Listener) \<Rightarrow> nat \<Rightarrow> 'w \<Rightarrow> 'w serving" where
  "Serve s h l w =
     \<lparr>srv = s, listeners = h, lis = l, acceptor = Accepting, loop = Selecting,
      active = [], served = [], world = w, crashed = None\<rparr>"

text \<open>
  \<open>func (s *Server) ListenAndServe(network, addr string) error\<close>, given what
  \<open>net.Listen\<close> returned: an error, which is returned at once, or a listener, which
  is stored in the server and served.
\<close>

definition ListenAndServe :: "'w Server \<Rightarrow> (nat \<Rightarrow> Listener) \<Rightarrow> goerror + nat \<Rightarrow> 'w
    \<Rightarrow> goerror + 'w serving" where
  "ListenAndServe s h listened w =
     (case listened of
        Inl err \<Rightarrow> Inl err
      | Inr l \<Rightarrow> Inr (Serve (s\<lparr>listener := Some l\<rparr>) h l w))"

text \<open>The errors that \<open>Accept\<close> on a listener can return.\<close>

definition is_accept_error :: "Listener \<Rightarrow> goerror \<Rightarrow> bool" where
  "is_accept_error l err = (AcceptErr err \<in> set (incoming l) \<or> err = net_ErrClosed)"

text \<open>
  What holds of every state of a run of \<open>Serve\<close> on a listener that started as
  \<open>l0\<close>: the listener's queue only shrinks; an error the accepting goroutine is
  sending, and an error \<open>Serve\<close> has returned, came from \<open>Accept\<close>; \<open>Serve\<close> has
  returned nil only with \<open>shutdown\<close> closed; and a call of \<open>Shutdown\<close> has
  panicked only with \<open>shutdown\<close> closed.
\<close>

definition Serve_inv :: "Listener \<Rightarrow> 'w serving \<Rightarrow> bool" where
  "Serve_inv l0 st =
     (set (incoming (listeners st (lis st))) \<subseteq> set (incoming l0)
      \<and> (\<forall>err. acceptor st = SendingErr err \<longrightarrow> is_accept_error l0 err)
      \<and> (\<forall>err. loop st = Returned (Some err) \<longrightarrow> is_accept_error l0 err)
      \<and> (loop st = Returned None \<longrightarrow> shutdown (srv st) = ChanClosed)
      \<and> (crashed st \<noteq> None \<longrightarrow> shutdown (srv st) = ChanClosed))"

subsection \<open>Example inputs\<close>

text \<open>\<open>Config{}\<close>: every field unset.\<close>

definition Config_zero :: "'w Config" where
  "Config_zero =
     \<lparr>AuthMethods = [], AuthMethodsSort = None, Credentials = None, Resolver = None,
      Rules = None, Rewriter = None, BindIP = [], ErrorHandler = None, BaseContext = None,
      Dial = None\<rparr>"

text \<open>An error handler that appends each error it is given to a log.\<close>

definition log_error :: "goerror \<Rightarrow> goerror list \<Rightarrow> goerror list" where
  "log_error err log = log @ [err]"

text \<open>The server that \<open>New\<close> builds from \<open>Config{}\<close> and from \<open>Config{ErrorHandler: log}\<close>.\<close>

definition ex_server :: "(goerror \<Rightarrow> 'w \<Rightarrow> 'w) option \<Rightarrow> 'w Server" where
  "ex_server handler =
     \<lparr>config = Config_zero\<lparr>AuthMethods := [Some NoAuthAuthenticator],
         Resolver := Some DNSResolver, Rules := Some PermitAll, ErrorHandler := handler\<rparr>,
      authMethods = [0 \<mapsto> NoAuthAuthenticator], shutdown = ChanOpen, listener = None\<rparr>"

text \<open>
  The helpers of the examples follow the spec's wire format. The greeting is the
  method count and the methods (the version byte is read by \<open>ServeConn\<close>); the
  server answers \<open>05 00\<close> when no-auth is offered and registered and \<open>05 FF\<close>
  otherwise. A request is version, command, reserved, address type (1: four bytes,
  4: sixteen bytes, 3: a length byte and the name), address and a two-byte port. A
  reply with no address is \<open>05 code 00 01 00 00 00 00 00 00\<close>. The example's handler
  of requests lets a CONNECT to port 80 succeed with nothing to relay, refuses every
  other CONNECT (reply code 5) and answers reply code 7 to the other commands.
\<close>

text \<open>The error of a read at the end of the client's bytes.\<close>

definition io_EOF :: goerror where
  "io_EOF = ErrorString ''EOF''"

text \<open>
  Modelled from the spec: the negotiation of the method, for a server that offers
  no-auth only.
\<close>

definition ex_authenticate :: "'w Server \<Rightarrow> byte list \<Rightarrow> reader
    \<Rightarrow> (goerror + AuthContext option) \<times> byte list \<times> reader" where
  "ex_authenticate s w r =
     (case pending r of
        [] \<Rightarrow> (Inl (read_err r), w, r)
      | n # rest \<Rightarrow>
          (let offered = take (unat n) rest; r' = r\<lparr>pending := drop (unat n) rest\<rparr>
           in if 0 \<in> set offered \<and> authMethods s 0 \<noteq> None
              then (Inr (Some \<lparr>Method = 0, Payload = []\<rparr>), w @ [socks5Version, 0], r')
              else (Inl (ErrorString ''no supported authentication mechanism''),
                    w @ [socks5Version, 255], r')))"

text \<open>
  Modelled from the spec: decoding of the address and the port of a request; an
  address type other than 1, 3 and 4 is the unrecognized-address-type error.
\<close>

definition ex_address :: "byte \<Rightarrow> byte list \<Rightarrow> (goerror + AddrSpec) \<times> byte list" where
  "ex_address atyp bs =
     (let fixed = (\<lambda>n. if length bs < n + 2 then (Inl io_EOF, [])
                        else (Inr \<lparr>FQDN = [], IP = take n bs,
                                   Port = unat (bs ! n) * 256 + unat (bs ! (n + 1))\<rparr>,
                              drop (n + 2) bs))
      in if atyp = 1 then fixed 4
         else if atyp = 4 then fixed 16
         else if atyp = 3 then
           (case bs of
              [] \<Rightarrow> (Inl io_EOF, [])
            | n # name \<Rightarrow>
                if length name < unat n + 2 then (Inl io_EOF, [])
                else (Inr \<lparr>FQDN = map (\<lambda>b. char_of (unat b)) (take (unat n) name), IP = [],
                           Port = unat (name ! unat n) * 256 + unat (name ! (unat n + 1))\<rparr>,
                      drop (unat n + 2) name))
         else (Inl unrecognizedAddrType, bs))"

text \<open>
  Modelled from the spec: decoding of a request frame (version, command, reserved,
  address type, address, port).
\<close>

definition ex_NewRequest :: "reader \<Rightarrow> (goerror + Request) \<times> reader" where
  "ex_NewRequest r =
     (case pending r of
        ver # cmd # rsv # atyp # rest \<Rightarrow>
          if ver \<noteq> socks5Version
          then (Inl (ErrorString ''unsupported command version''), r\<lparr>pending := atyp # rest\<rparr>)
          else
            (case ex_address atyp rest of
               (Inl err, rest') \<Rightarrow> (Inl err, r\<lparr>pending := rest'\<rparr>)
             | (Inr dest, rest') \<Rightarrow>
                 (Inr \<lparr>Command = cmd, DestAddr = dest, Request_AuthContext = None,
                       Request_RemoteAddr = None\<rparr>,
                  r\<lparr>pending := rest'\<rparr>))
      | _ \<Rightarrow> (Inl (ErrorString ''failed to get command version''), r\<lparr>pending := []\<rparr>))"

text \<open>
  Modelled from the spec: the reply frame (version, reply code, reserved, address
  type 1, the bound IPv4 address or zeros, the port).
\<close>

definition ex_sendReply :: "byte list \<Rightarrow> byte \<Rightarrow> AddrSpec option \<Rightarrow> goerror option \<times> byte list" where
  "ex_sendReply w code addr =
     (case addr of
        None \<Rightarrow> (None, w @ [socks5Version, code, 0, 1, 0, 0, 0, 0, 0, 0])
      | Some a \<Rightarrow>
          (None, w @ [socks5Version, code, 0, 1] @ IP a
                   @ [of_nat (Port a div 256), of_nat (Port a mod 256)]))"

text \<open>
  Modelled from the spec: an example of the dispatch on the command, with a dial that
  succeeds for port 80 only and nothing to relay.
\<close>

definition ex_handleRequest :: "'w Server \<Rightarrow> Request \<Rightarrow> netconn \<Rightarrow> byte list \<Rightarrow> reader
    \<Rightarrow> goerror option \<times> byte list \<times> reader" where
  "ex_handleRequest s req c w r =
     (if Command req = 1 then
        (if Port (DestAddr req) = 80
         then (None, snd (ex_sendReply w 0 (Some \<lparr>FQDN = [], IP = [127, 0, 0, 1], Port = 40000\<rparr>)), r)
         else (Some (ErrorString ''connection refused''), snd (ex_sendReply w 5 None), r))
      else (Some (ErrorString ''unsupported command''), snd (ex_sendReply w 7 None), r))"

definition ex_helpers :: "'w helpers" where
  "ex_helpers =
     \<lparr>authenticate = ex_authenticate, NewRequest = ex_NewRequest, sendReply = ex_sendReply,
      handleRequest = ex_handleRequest\<rparr>"

text \<open>A client connection that has sent the bytes \<open>bs\<close> and then closed its side.\<close>

definition ex_conn :: "byte list \<Rightarrow> conn" where
  "ex_conn bs =
     \<lparr>handle = \<lparr>RemoteAddr = TCPAddr [10, 0, 0, 7] 51000 ''10.0.0.7:51000'',
                LocalAddr = TCPAddr [10, 0, 0, 1] 1080 ''10.0.0.1:1080''\<rparr>,
      bufConn = \<lparr>pending = bs, read_err = io_EOF\<rparr>,
      written = [], closes = 0\<rparr>"

text \<open>A store of listeners in which every listener is open with the given queue.\<close>

definition ex_listeners :: "accept_result list \<Rightarrow> nat \<Rightarrow> Listener" where
  "ex_listeners q = (\<lambda>r. \<lparr>lclosed = False, incoming = q\<rparr>)"

text \<open>
  What \<open>ListenAndServe\<close> starts on the server built from \<open>Config{}\<close> with the
  given error handler, when \<open>net.Listen\<close> returns listener 0 with the queue \<open>q\<close>.
\<close>

definition ex_serving :: "(goerror \<Rightarrow> 'w \<Rightarrow> 'w) option \<Rightarrow> accept_result list \<Rightarrow> 'w \<Rightarrow> 'w serving" where
  "ex_serving handler q w =
     Serve ((ex_server handler)\<lparr>listener := Some 0\<rparr>) (ex_listeners q) 0 w"

section \<open>Properties\<close>

subsection \<open>Static credentials\<close>

text \<open>
  C7. For every \<open>StaticCredentials\<close> map \<open>s\<close>, user \<open>u\<close> and password \<open>p\<close>:
  \<open>s.Valid(u, p)\<close> is true if and only if \<open>u\<close> is a key of \<open>s\<close> and the stored
  password \<open>s[u]\<close> equals \<open>p\<close> exactly.
\<close>

theorem StaticCredentials_Valid_iff:
  "StaticCredentials_Valid s u p = (u \<in> dom s \<and> s u = Some p)"
  by (auto simp: StaticCredentials_Valid_def split: option.splits)

theorem StaticCredentials_Valid_iff_witness:
  "StaticCredentials_Valid [''alice'' \<mapsto> ''secret''] ''alice'' ''secret''
   \<and> \<not> StaticCredentials_Valid [''alice'' \<mapsto> ''secret''] ''alice'' ''wrong''
   \<and> \<not> StaticCredentials_Valid [''alice'' \<mapsto> ''secret''] ''bob'' ''secret''"
  using StaticCredentials_Valid_iff [of "[''alice'' \<mapsto> ''secret'']" "''alice''" "''secret''"]
        StaticCredentials_Valid_iff [of "[''alice'' \<mapsto> ''secret'']" "''alice''" "''wrong''"]
        StaticCredentials_Valid_iff [of "[''alice'' \<mapsto> ''secret'']" "''bob''" "''secret''"]
  by simp

subsection \<open>The error type surfaced to callers\<close>

text \<open>
  C9. For every wrapped connection error with underlying cause \<open>err\<close> on connection
  \<open>c\<close>: its \<open>Error()\<close> rendering is \<open>c\<close>'s remote address, then \<open>" -> "\<close>, then \<open>c\<close>'s
  local address, then \<open>": "\<close>, then \<open>err\<close>'s message; and \<open>Unwrap()\<close> returns exactly
  \<open>err\<close>.
\<close>

theorem wrapError_Error_Unwrap:
  "Error (wrapError err c req) =
     Addr_String (RemoteAddr c) @ '' -> '' @ Addr_String (LocalAddr c) @ '': '' @ Error err
   \<and> Unwrap (wrapError err c req) = Some err"
  by (simp add: wrapError_def)

theorem wrapError_Error_Unwrap_witness:
  "Error (wrapError (Errorf_w ''read version byte: '' io_EOF) (handle (ex_conn [])) None)
     = ''10.0.0.7:51000 -> 10.0.0.1:1080: read version byte: EOF''
   \<and> Unwrap (wrapError (Errorf_w ''read version byte: '' io_EOF) (handle (ex_conn [])) None)
     = Some (Errorf_w ''read version byte: '' io_EOF)"
  using wrapError_Error_Unwrap [of "Errorf_w ''read version byte: '' io_EOF" "handle (ex_conn [])" None]
  by (simp add: ex_conn_def io_EOF_def)

subsection \<open>New\<close>

lemma register_Some:
  "register (map Some as) m = Inr (m ++ map_of (rev (map (\<lambda>a. (GetCode a, a)) as)))"
proof (induction as arbitrary: m)
  case Nil
  show ?case by simp
next
  case (Cons a as)
  let ?M = "map_of (rev (map (\<lambda>a. (GetCode a, a)) as))"
  have "register (map Some (a # as)) m = register (map Some as) (m(GetCode a \<mapsto> a))"
    by simp
  also have "\<dots> = Inr (m(GetCode a \<mapsto> a) ++ ?M)"
    by (rule Cons.IH)
  also have "m(GetCode a \<mapsto> a) ++ ?M = m ++ map_of (rev (map (\<lambda>a. (GetCode a, a)) (a # as)))"
    by (rule ext) (simp add: map_add_def split: option.splits)
  finally show ?case .
qed

lemma register_no_None:
  "None \<notin> set as \<Longrightarrow> \<exists>m'. register as m = Inr m'"
proof (induction as arbitrary: m)
  case Nil
  show ?case by simp
next
  case (Cons a as)
  then show ?case by (cases a) auto
qed

text \<open>
  C3. For every \<open>Config\<close> whose \<open>AuthMethods\<close> list is empty, \<open>New\<close> configures
  exactly one authentication method: username/password backed by the configured
  credential store when \<open>Credentials\<close> is non-nil (first part), and no-auth otherwise
  (second part). When \<open>AuthMethods\<close> is non-empty, that list is used as given: it is
  kept in the configuration and it alone is registered (third part), each method
  under its code, a later one replacing an earlier one of the same code (fourth
  part).
\<close>

theorem New_AuthMethods:
  "(AuthMethods conf = [] \<and> Credentials conf \<noteq> None \<longrightarrow>
      (\<exists>srv. New conf = Inr (Some srv, None)
         \<and> AuthMethods (config srv) = [Some (UserPassAuthenticator (Credentials conf))]
         \<and> authMethods srv
             = [GetCode (UserPassAuthenticator (Credentials conf))
                  \<mapsto> UserPassAuthenticator (Credentials conf)]))
   \<and> (AuthMethods conf = [] \<and> Credentials conf = None \<longrightarrow>
      (\<exists>srv. New conf = Inr (Some srv, None)
         \<and> AuthMethods (config srv) = [Some NoAuthAuthenticator]
         \<and> authMethods srv = [GetCode NoAuthAuthenticator \<mapsto> NoAuthAuthenticator]))
   \<and> (AuthMethods conf \<noteq> [] \<longrightarrow>
      New conf =
        (case register (AuthMethods conf) Map.empty of
           Inl p \<Rightarrow> Inl p
         | Inr m \<Rightarrow>
             Inr (Some \<lparr>config = conf
                          \<lparr>Resolver := Some (case Resolver conf of None \<Rightarrow> DNSResolver | Some r \<Rightarrow> r),
                           Rules := Some (case Rules conf of None \<Rightarrow> PermitAll | Some r \<Rightarrow> r)\<rparr>,
                        authMethods = m, shutdown = ChanOpen, listener = None\<rparr>,
                  None)))
   \<and> register (map Some as) Map.empty = Inr (map_of (rev (map (\<lambda>a. (GetCode a, a)) as)))"
proof (intro conjI impI)
  assume "AuthMethods conf = [] \<and> Credentials conf \<noteq> None"
  then show "\<exists>srv. New conf = Inr (Some srv, None)
      \<and> AuthMethods (config srv) = [Some (UserPassAuthenticator (Credentials conf))]
      \<and> authMethods srv
          = [GetCode (UserPassAuthenticator (Credentials conf))
               \<mapsto> UserPassAuthenticator (Credentials conf)]"
    by (auto simp: New_def Let_def)
next
  assume "AuthMethods conf = [] \<and> Credentials conf = None"
  then show "\<exists>srv. New conf = Inr (Some srv, None)
      \<and> AuthMethods (config srv) = [Some NoAuthAuthenticator]
      \<and> authMethods srv = [GetCode NoAuthAuthenticator \<mapsto> NoAuthAuthenticator]"
    by (auto simp: New_def Let_def)
next
  assume "AuthMethods conf \<noteq> []"
  then show "New conf =
        (case register (AuthMethods conf) Map.empty of
           Inl p \<Rightarrow> Inl p
         | Inr m \<Rightarrow>
             Inr (Some \<lparr>config = conf
                          \<lparr>Resolver := Some (case Resolver conf of None \<Rightarrow> DNSResolver | Some r \<Rightarrow> r),
                           Rules := Some (case Rules conf of None \<Rightarrow> PermitAll | Some r \<Rightarrow> r)\<rparr>,
                        authMethods = m, shutdown = ChanOpen, listener = None\<rparr>,
                  None))"
    by (cases "Resolver conf"; cases "Rules conf")
       (simp_all add: New_def Let_def split: sum.splits)
next
  show "register (map Some as) Map.empty = Inr (map_of (rev (map (\<lambda>a. (GetCode a, a)) as)))"
    by (simp add: register_Some)
qed

theorem New_AuthMethods_witness:
  "(\<exists>srv. New (Config_zero\<lparr>Credentials := Some (StaticCredentialsStore [''alice'' \<mapsto> ''secret''])\<rparr>
              :: unit Config) = Inr (Some srv, None)
      \<and> AuthMethods (config srv)
          = [Some (UserPassAuthenticator (Some (StaticCredentialsStore [''alice'' \<mapsto> ''secret''])))]
      \<and> authMethods srv
          = [2 \<mapsto> UserPassAuthenticator (Some (StaticCredentialsStore [''alice'' \<mapsto> ''secret'']))])
   \<and> (\<exists>srv. New (Config_zero :: unit Config) = Inr (Some srv, None)
      \<and> AuthMethods (config srv) = [Some NoAuthAuthenticator]
      \<and> authMethods srv = [0 \<mapsto> NoAuthAuthenticator])
   \<and> New (Config_zero\<lparr>AuthMethods := [Some (CustomAuthenticator 9), Some NoAuthAuthenticator]\<rparr>
          :: unit Config)
      = Inr (Some \<lparr>config = Config_zero
                     \<lparr>AuthMethods := [Some (CustomAuthenticator 9), Some NoAuthAuthenticator],
                      Resolver := Some DNSResolver, Rules := Some PermitAll\<rparr>,
                   authMethods = [9 \<mapsto> CustomAuthenticator 9, 0 \<mapsto> NoAuthAuthenticator],
                   shutdown = ChanOpen, listener = None\<rparr>, None)"
  using New_AuthMethods
      [of "Config_zero\<lparr>Credentials := Some (StaticCredentialsStore [''alice'' \<mapsto> ''secret''])\<rparr>
           :: unit Config" "[]"]
    New_AuthMethods [of "Config_zero :: unit Config" "[]"]
    New_AuthMethods
      [of "Config_zero\<lparr>AuthMethods := [Some (CustomAuthenticator 9), Some NoAuthAuthenticator]\<rparr>
           :: unit Config" "[]"]
  by (simp add: Config_zero_def)

text \<open>
  C10, as the code has it. For every input \<open>Config\<close> whose \<open>AuthMethods\<close> list has
  no nil entry (including one with all fields unset), \<open>New\<close> returns a non-nil
  \<open>Server\<close> together with a nil error; and whenever \<open>New\<close> returns, the server is
  non-nil and the error is nil: the error branch of its result is never taken.
\<close>

theorem New_returns_server:
  "(None \<notin> set (AuthMethods conf) \<longrightarrow> (\<exists>srv. New conf = Inr (Some srv, None)))
   \<and> (\<forall>srv err. New conf = Inr (srv, err) \<longrightarrow> srv \<noteq> None \<and> err = None)"
proof -
  define conf1 where "conf1 =
    (if length (AuthMethods conf) = 0 then
       (if Credentials conf \<noteq> None
        then conf\<lparr>AuthMethods := [Some (UserPassAuthenticator (Credentials conf))]\<rparr>
        else conf\<lparr>AuthMethods := [Some NoAuthAuthenticator]\<rparr>)
     else conf)"
  have returns: "\<exists>srv. New conf = Inr (Some srv, None)" if nn: "None \<notin> set (AuthMethods conf)"
  proof -
    have "None \<notin> set (AuthMethods conf1)"
      using nn by (simp add: conf1_def)
    then obtain m where "register (AuthMethods conf1) Map.empty = Inr m"
      using register_no_None by blast
    then show ?thesis
      by (simp add: New_def Let_def conf1_def)
  qed
  have no_error: "srv \<noteq> None \<and> err = None" if "New conf = Inr (srv, err)" for srv err
    using that by (auto simp: New_def Let_def split: sum.splits)
  from returns no_error show ?thesis by blast
qed

theorem New_returns_server_witness:
  "None \<notin> set (AuthMethods (Config_zero :: unit Config))
   \<and> New (Config_zero :: unit Config) = Inr (Some (ex_server None), None)"
  using New_returns_server [of "Config_zero :: unit Config"]
  by (simp add: Config_zero_def ex_server_def New_def Let_def)

text \<open>
  The claim C10 as it was stated fails: a \<open>Config\<close> whose \<open>AuthMethods\<close> holds a nil
  \<open>Authenticator\<close> makes \<open>New\<close> panic at \<open>a.GetCode()\<close>; it returns nothing.
\<close>

theorem New_nil_method_counterexample:
  "New (Config_zero\<lparr>AuthMethods := [None]\<rparr> :: unit Config)
     = Inl (Panic ''invalid memory address or nil pointer dereference'')"
  by (simp add: New_def Config_zero_def Let_def)

subsection \<open>Shutdown\<close>

text \<open>
  C1 asks that a second call of \<open>Shutdown\<close> on the same server completes normally.
  It does not: whatever the server and the listeners, the second of two calls panics
  at \<open>close(s.shutdown)\<close>.
\<close>

theorem Shutdown_twice_panics:
  "fst (Shutdown (fst (snd (Shutdown s h))) (snd (snd (Shutdown s h))))
     = Some (Panic ''close of closed channel'')"
  by (simp add: Shutdown_def Let_def split: option.splits)

subsection \<open>ServeConn\<close>

lemmas ServeConn_defs =
  ServeConn_def ServeConn_body_def Read_version_def Conn_Close_def socks5Version_def
  addrTypeNotSupported_def

text \<open>
  C6. For every invocation of \<open>ServeConn\<close>, the client connection is closed exactly
  once by the time \<open>ServeConn\<close> returns, whichever phase fails (and when none does).
\<close>

theorem ServeConn_closes_once:
  "closes (snd (ServeConn hs s c)) = closes c + 1"
  by (simp add: ServeConn_defs Let_def
      split: prod.splits option.splits sum.splits list.splits Addr.splits)

theorem ServeConn_closes_once_witness:
  "closes (snd (ServeConn ex_helpers (ex_server None :: unit Server) (ex_conn []))) = 1
   \<and> closes (snd (ServeConn ex_helpers (ex_server None :: unit Server) (ex_conn [4, 1, 0]))) = 1
   \<and> closes (snd (ServeConn ex_helpers (ex_server None :: unit Server) (ex_conn [5, 1, 2]))) = 1
   \<and> closes (snd (ServeConn ex_helpers (ex_server None :: unit Server)
        (ex_conn [5, 1, 0, 5, 1, 0, 5, 127, 0, 0, 1, 0, 80]))) = 1
   \<and> closes (snd (ServeConn ex_helpers (ex_server None :: unit Server)
        (ex_conn [5, 1, 0, 5, 2, 0, 1, 127, 0, 0, 1, 0, 80]))) = 1
   \<and> ServeConn ex_helpers (ex_server None :: unit Server)
        (ex_conn [5, 1, 0, 5, 1, 0, 1, 127, 0, 0, 1, 0, 80])
      = (None, (ex_conn [])\<lparr>written := [5, 0, 5, 0, 0, 1, 127, 0, 0, 1, 156, 64], closes := 1\<rparr>)"
  using ServeConn_closes_once [of ex_helpers "ex_server None :: unit Server" "ex_conn []"]
    ServeConn_closes_once [of ex_helpers "ex_server None :: unit Server" "ex_conn [4, 1, 0]"]
    ServeConn_closes_once [of ex_helpers "ex_server None :: unit Server" "ex_conn [5, 1, 2]"]
    ServeConn_closes_once [of ex_helpers "ex_server None :: unit Server"
      "ex_conn [5, 1, 0, 5, 1, 0, 5, 127, 0, 0, 1, 0, 80]"]
    ServeConn_closes_once [of ex_helpers "ex_server None :: unit Server"
      "ex_conn [5, 1, 0, 5, 2, 0, 1, 127, 0, 0, 1, 0, 80]"]
    ServeConn_closes_once [of ex_helpers "ex_server None :: unit Server"
      "ex_conn [5, 1, 0, 5, 1, 0, 1, 127, 0, 0, 1, 0, 80]"]
  by (simp add: ServeConn_defs ex_helpers_def ex_conn_def ex_server_def ex_authenticate_def
      ex_NewRequest_def ex_address_def ex_sendReply_def ex_handleRequest_def Let_def)

text \<open>
  C8. For every connection whose first byte is not 5, \<open>ServeConn\<close> returns a non-nil
  error, writes no bytes to the client and performs no further protocol step: the
  result does not depend on the helpers, and the connection is left with that one
  byte read, nothing written, and closed.
\<close>

theorem ServeConn_bad_version:
  assumes "pending (bufConn c) = b # bs" and "b \<noteq> 5"
  shows "ServeConn hs s c =
           (Some (wrapError (ErrorString (''unsupported socks version: '' @ format_bytes [b]))
                    (handle c) None),
            c\<lparr>bufConn := (bufConn c)\<lparr>pending := bs\<rparr>, closes := closes c + 1\<rparr>)
         \<and> written (snd (ServeConn hs s c)) = written c"
  using assms by (simp add: ServeConn_defs)

theorem ServeConn_bad_version_witness:
  "pending (bufConn (ex_conn [4, 1, 0])) = 4 # [1, 0] \<and> (4 :: byte) \<noteq> 5
   \<and> fst (ServeConn ex_helpers (ex_server None :: unit Server) (ex_conn [4, 1, 0]))
       = Some (ConnError (ErrorString ''unsupported socks version: [4]'')
                 (handle (ex_conn [4, 1, 0])) None)
   \<and> written (snd (ServeConn ex_helpers (ex_server None :: unit Server) (ex_conn [4, 1, 0]))) = []
   \<and> pending (bufConn (snd (ServeConn ex_helpers (ex_server None :: unit Server)
        (ex_conn [4, 1, 0])))) = [1, 0]"
  using ServeConn_bad_version [of "ex_conn [4, 1, 0]" 4 "[1, 0]" ex_helpers "ex_server None :: unit Server"]
  by (simp add: ex_conn_def wrapError_def format_bytes_def decimal.simps digit_def)

text \<open>
  C2. After successful authentication, if decoding the request frame fails with the
  unrecognized-address-type error, \<open>ServeConn\<close> calls \<open>sendReply\<close> with code 8 (what
  the client has been sent is what that call leaves) and returns a non-nil error;
  for every other request-decode failure it returns a non-nil error and writes
  nothing after the authentication.
\<close>

theorem ServeConn_decode_failure:
  assumes "pending (bufConn c) = 5 # bs"
    and "authenticate hs s (written c) ((bufConn c)\<lparr>pending := bs\<rparr>) = (Inr authContext, w2, r2)"
    and "NewRequest hs r2 = (Inl err, r3)"
  shows "if err = unrecognizedAddrType
         then ServeConn hs s c =
                (Some (wrapError
                         (case fst (sendReply hs w2 8 None) of
                            Some err' \<Rightarrow> Errorf_v ''send reply: '' err'
                          | None \<Rightarrow> Errorf_w ''read dst addr: '' err)
                         (handle c) None),
                 c\<lparr>bufConn := r3, written := snd (sendReply hs w2 8 None),
                   closes := closes c + 1\<rparr>)
         else ServeConn hs s c =
                (Some (wrapError (Errorf_w ''read dst addr: '' err) (handle c) None),
                 c\<lparr>bufConn := r3, written := w2, closes := closes c + 1\<rparr>)"
  using assms by (simp add: ServeConn_defs split: prod.splits option.splits)

theorem ServeConn_decode_failure_witness:
  "ServeConn ex_helpers (ex_server None :: unit Server)
       (ex_conn [5, 1, 0, 5, 1, 0, 5, 127, 0, 0, 1, 0, 80])
     = (Some (ConnError (Errorf_w ''read dst addr: '' unrecognizedAddrType)
                (handle (ex_conn [])) None),
        (ex_conn [])\<lparr>bufConn := \<lparr>pending = [127, 0, 0, 1, 0, 80], read_err = io_EOF\<rparr>,
                      written := [5, 0, 5, 8, 0, 1, 0, 0, 0, 0, 0, 0], closes := 1\<rparr>)
   \<and> ServeConn ex_helpers (ex_server None :: unit Server)
       (ex_conn [5, 1, 0, 5, 1, 0, 1, 127, 0])
     = (Some (ConnError (Errorf_w ''read dst addr: '' io_EOF) (handle (ex_conn [])) None),
        (ex_conn [])\<lparr>bufConn := \<lparr>pending = [], read_err = io_EOF\<rparr>,
                      written := [5, 0], closes := 1\<rparr>)"
  using
    ServeConn_decode_failure
      [of "ex_conn [5, 1, 0, 5, 1, 0, 5, 127, 0, 0, 1, 0, 80]"
          "[1, 0, 5, 1, 0, 5, 127, 0, 0, 1, 0, 80]" ex_helpers "ex_server None :: unit Server"
          "Some \<lparr>Method = 0, Payload = []\<rparr>" "[5, 0]"
          "\<lparr>pending = [5, 1, 0, 5, 127, 0, 0, 1, 0, 80], read_err = io_EOF\<rparr>"
          unrecognizedAddrType "\<lparr>pending = [127, 0, 0, 1, 0, 80], read_err = io_EOF\<rparr>"]
    ServeConn_decode_failure
      [of "ex_conn [5, 1, 0, 5, 1, 0, 1, 127, 0]"
          "[1, 0, 5, 1, 0, 1, 127, 0]" ex_helpers "ex_server None :: unit Server"
          "Some \<lparr>Method = 0, Payload = []\<rparr>" "[5, 0]"
          "\<lparr>pending = [5, 1, 0, 1, 127, 0], read_err = io_EOF\<rparr>"
          io_EOF "\<lparr>pending = [], read_err = io_EOF\<rparr>"]
  by (simp add: ex_helpers_def ex_conn_def ex_server_def ex_authenticate_def
      ex_NewRequest_def ex_address_def ex_sendReply_def socks5Version_def wrapError_def
      io_EOF_def)

subsection \<open>Serve\<close>

lemma Serve_inv_start: "Serve_inv (h l) (Serve s h l w)"
  by (simp add: Serve_inv_def Serve_def)

lemma Shutdown_closed: "shutdown (fst (snd (Shutdown s h))) = ChanClosed"
  by (simp add: Shutdown_def Let_def split: option.splits)

lemma Shutdown_incoming: "incoming (snd (snd (Shutdown s h)) r) = incoming (h r)"
  by (simp add: Shutdown_def Let_def Listener_Close_def split: option.splits)

lemma Shutdown_panic: "fst (Shutdown s h) = Some p \<Longrightarrow> shutdown s = ChanClosed"
  by (simp add: Shutdown_def Let_def split: option.splits if_splits)

lemma Accept_incoming:
  "Accept l = Some (r, l') \<Longrightarrow> set (incoming l') \<subseteq> set (incoming l)"
  by (auto simp: Accept_def split: if_splits list.splits)

lemma Accept_error:
  "Accept l = Some (AcceptErr err, l') \<Longrightarrow> set (incoming l) \<subseteq> set (incoming l0) \<Longrightarrow> is_accept_error l0 err"
  by (auto simp: Accept_def is_accept_error_def split: if_splits list.splits)

lemma fire_Serve_inv:
  assumes "fire hs a st = Some st'" and "Serve_inv l0 st"
  shows "Serve_inv l0 st'"
proof (cases a)
  case DoAccept
  with assms(1) obtain r l' where
    acc: "Accept (listeners st (lis st)) = Some (r, l')"
    and st': "st' = st\<lparr>listeners := (listeners st)(lis st := l'),
                acceptor := (case r of AcceptConn c \<Rightarrow> SendingConn c | AcceptErr err \<Rightarrow> SendingErr err)\<rparr>"
    by (auto simp: fire_def split: if_splits option.splits accept_result.splits)
  from acc have sub: "set (incoming l') \<subseteq> set (incoming (listeners st (lis st)))"
    by (rule Accept_incoming)
  have "is_accept_error l0 err" if "r = AcceptErr err" for err
    using that acc assms(2) Accept_error [of "listeners st (lis st)" err l' l0]
    by (simp add: Serve_inv_def)
  with assms(2) sub show ?thesis
    by (auto simp: Serve_inv_def st' split: accept_result.splits)
next
  case RecvConn
  with assms show ?thesis
    by (auto simp: fire_def Serve_inv_def split: if_splits loop.splits acceptor.splits)
next
  case RecvErr
  with assms show ?thesis
    by (auto simp: fire_def Serve_inv_def split: if_splits loop.splits acceptor.splits)
next
  case RecvShutdown
  with assms show ?thesis
    by (auto simp: fire_def Serve_inv_def split: if_splits)
next
  case (ConnDone k)
  with assms show ?thesis
    by (auto simp: fire_def Serve_inv_def split: if_splits prod.splits)
next
  case CallShutdown
  with assms(1) have st': "st' = st\<lparr>srv := fst (snd (Shutdown (srv st) (listeners st))),
       listeners := snd (snd (Shutdown (srv st) (listeners st))),
       crashed := fst (Shutdown (srv st) (listeners st))\<rparr>"
    by (auto simp: fire_def split: if_splits prod.splits)
  with assms(2) show ?thesis
    by (simp add: Serve_inv_def Shutdown_closed Shutdown_incoming)
qed

lemma run_Serve_inv:
  "run hs ls st = Some st' \<Longrightarrow> Serve_inv l0 st \<Longrightarrow> Serve_inv l0 st'"
proof (induction ls arbitrary: st)
  case Nil
  then show ?case by simp
next
  case (Cons a ls)
  then show ?case
    by (auto split: option.splits dest: fire_Serve_inv)
qed

lemma run_append:
  "run hs (ls @ ls') st = (case run hs ls st of None \<Rightarrow> None | Some st' \<Rightarrow> run hs ls' st')"
  by (induction ls arbitrary: st) (auto split: option.splits)


lemma fire_pending_error:
  assumes "fire hs a st = Some st'"
    and "(acceptor st = SendingErr err \<and> loop st = Selecting)
         \<or> loop st = Returned (Some err) \<or> loop st = Returned None"
  shows "(acceptor st' = SendingErr err \<and> loop st' = Selecting)
         \<or> loop st' = Returned (Some err) \<or> loop st' = Returned None"
proof (cases a)
  case DoAccept
  with assms show ?thesis
    by (auto simp: fire_def split: if_splits option.splits accept_result.splits)
next
  case RecvConn
  with assms show ?thesis
    by (auto simp: fire_def split: if_splits loop.splits acceptor.splits)
next
  case RecvErr
  with assms show ?thesis
    by (auto simp: fire_def split: if_splits loop.splits acceptor.splits)
next
  case RecvShutdown
  with assms show ?thesis
    by (auto simp: fire_def split: if_splits)
next
  case (ConnDone k)
  with assms show ?thesis
    by (auto simp: fire_def split: if_splits prod.splits)
next
  case CallShutdown
  with assms show ?thesis
    by (auto simp: fire_def split: if_splits prod.splits)
qed

lemma run_pending_error:
  "run hs ls st = Some st' \<Longrightarrow>
   (acceptor st = SendingErr err \<and> loop st = Selecting)
     \<or> loop st = Returned (Some err) \<or> loop st = Returned None \<Longrightarrow>
   (acceptor st' = SendingErr err \<and> loop st' = Selecting)
     \<or> loop st' = Returned (Some err) \<or> loop st' = Returned None"
proof (induction ls arbitrary: st)
  case Nil
  then show ?case by simp
next
  case (Cons a ls)
  from Cons.prems(1) obtain st1 where f: "fire hs a st = Some st1" and r: "run hs ls st1 = Some st'"
    by (auto split: option.splits)
  from fire_pending_error [OF f Cons.prems(2)] r show ?case
    by (rule Cons.IH [rotated])
qed

lemma select_errs_only:
  assumes "acceptor st = SendingErr err" and "loop st = Selecting"
    and "shutdown (srv st) = ChanOpen" and "crashed st = None"
  shows "fire hs RecvErr st = Some (st\<lparr>acceptor := AcceptorReturned, loop := Returned (Some err)\<rparr>)
         \<and> fire hs RecvConn st = None \<and> fire hs RecvShutdown st = None"
  using assms by (simp add: fire_def)

lemma fire_ConnDone:
  assumes "fire hs (ConnDone k) st = Some st'"
  shows "loop st' = loop st
     \<and> world st' =
         (case fst (ServeConn hs (srv st) (active st ! k)) of
            None \<Rightarrow> world st
          | Some err \<Rightarrow>
              (case ErrorHandler (config (srv st)) of
                 None \<Rightarrow> world st
               | Some f \<Rightarrow> f err (world st)))"
  using assms by (auto simp: fire_def conn_task_def split: if_splits prod.splits)

lemmas run_defs =
  fire_def Accept_def Shutdown_def Listener_Close_def Serve_def ex_serving_def ex_listeners_def
  conn_task_def log_error_def net_ErrClosed_def

text \<open>
  C4, as the code has it. For every run of \<open>Serve\<close>, at every point \<open>st'\<close> of it:
  \<^item> once \<open>Accept\<close> has returned an error (the accepting goroutine is sending it, at
    the earlier point \<open>st\<close>) and as long as the shutdown signal is not raised, either
    \<open>Serve\<close> has returned that error, or it is in its \<open>select\<close>, where the one case
    that can be taken returns that error;
  \<^item> what \<open>Serve\<close> returns is nil, with the shutdown signal raised, or an error that
    \<open>Accept\<close> returned;
  \<^item> when \<open>ServeConn\<close> returns for a connection, its error goes to \<open>ErrorHandler\<close>
    when one is set and is dropped otherwise, and what \<open>Serve\<close> returns is not
    touched.
\<close>

theorem Serve_accept_error:
  assumes "run hs ls (Serve s h l w) = Some st" and "run hs ls' st = Some st'"
  shows "(\<forall>err. acceptor st = SendingErr err \<and> loop st = Selecting
            \<and> shutdown (srv st') = ChanOpen \<longrightarrow>
          loop st' = Returned (Some err)
          \<or> (loop st' = Selecting
              \<and> fire hs RecvErr st'
                  = Some (st'\<lparr>acceptor := AcceptorReturned, loop := Returned (Some err)\<rparr>)
              \<and> fire hs RecvConn st' = None \<and> fire hs RecvShutdown st' = None))
       \<and> (\<forall>r. loop st' = Returned r \<longrightarrow>
            (r = None \<and> shutdown (srv st') = ChanClosed)
            \<or> (\<exists>err. r = Some err \<and> is_accept_error (h l) err))
       \<and> (\<forall>k st''. fire hs (ConnDone k) st' = Some st'' \<longrightarrow>
            loop st'' = loop st'
            \<and> world st'' =
                (case fst (ServeConn hs (srv st') (active st' ! k)) of
                   None \<Rightarrow> world st'
                 | Some err \<Rightarrow>
                     (case ErrorHandler (config (srv st')) of
                        None \<Rightarrow> world st'
                      | Some f \<Rightarrow> f err (world st'))))"
proof -
  have "Serve_inv (h l) st"
    using assms(1) Serve_inv_start by (rule run_Serve_inv)
  with assms(2) have inv: "Serve_inv (h l) st'"
    by (rule run_Serve_inv)
  have part1: "loop st' = Returned (Some err)
          \<or> (loop st' = Selecting
              \<and> fire hs RecvErr st'
                  = Some (st'\<lparr>acceptor := AcceptorReturned, loop := Returned (Some err)\<rparr>)
              \<and> fire hs RecvConn st' = None \<and> fire hs RecvShutdown st' = None)"
    if pend: "acceptor st = SendingErr err" "loop st = Selecting"
      and "open": "shutdown (srv st') = ChanOpen" for err
  proof -
    from pend have "(acceptor st = SendingErr err \<and> loop st = Selecting)
         \<or> loop st = Returned (Some err) \<or> loop st = Returned None"
      by simp
    with assms(2) have "(acceptor st' = SendingErr err \<and> loop st' = Selecting)
         \<or> loop st' = Returned (Some err) \<or> loop st' = Returned None"
      by (rule run_pending_error)
    moreover from inv "open" have "loop st' \<noteq> Returned None" and "crashed st' = None"
      by (auto simp: Serve_inv_def)
    ultimately show ?thesis
      using "open" select_errs_only [of st' err hs] by blast
  qed
  have part2: "(r = None \<and> shutdown (srv st') = ChanClosed)
            \<or> (\<exists>err. r = Some err \<and> is_accept_error (h l) err)"
    if "loop st' = Returned r" for r
    using that inv by (cases r) (auto simp: Serve_inv_def)
  from part1 part2 fire_ConnDone show ?thesis
    by blast
qed

theorem Serve_accept_error_witness:
  "map_option acceptor
     (run ex_helpers [DoAccept, RecvConn, DoAccept]
       (Serve (ex_server (Some log_error))
          (ex_listeners [AcceptConn (ex_conn [4, 1, 0]), AcceptErr (ErrorString ''too many open files'')])
          0 []))
     = Some (SendingErr (ErrorString ''too many open files''))
   \<and> map_option loop
     (run ex_helpers [DoAccept, RecvConn, DoAccept, ConnDone 0, RecvErr]
       (Serve (ex_server (Some log_error))
          (ex_listeners [AcceptConn (ex_conn [4, 1, 0]), AcceptErr (ErrorString ''too many open files'')])
          0 []))
     = Some (Returned (Some (ErrorString ''too many open files'')))
   \<and> map_option world
     (run ex_helpers [DoAccept, RecvConn, DoAccept, ConnDone 0, RecvErr]
       (Serve (ex_server (Some log_error))
          (ex_listeners [AcceptConn (ex_conn [4, 1, 0]), AcceptErr (ErrorString ''too many open files'')])
          0 []))
     = Some [ConnError (ErrorString ''unsupported socks version: [4]'') (handle (ex_conn [])) None]"
  using Serve_accept_error
    [of ex_helpers "[DoAccept, RecvConn, DoAccept]" "ex_server (Some log_error)"
        "ex_listeners [AcceptConn (ex_conn [4, 1, 0]), AcceptErr (ErrorString ''too many open files'')]"
        0 "[]"
        "the (run ex_helpers [DoAccept, RecvConn, DoAccept]
          (Serve (ex_server (Some log_error))
          (ex_listeners [AcceptConn (ex_conn [4, 1, 0]), AcceptErr (ErrorString ''too many open files'')])
          0 []))"
        "[ConnDone 0, RecvErr]"
        "the (run ex_helpers [DoAccept, RecvConn, DoAccept, ConnDone 0, RecvErr]
          (Serve (ex_server (Some log_error))
          (ex_listeners [AcceptConn (ex_conn [4, 1, 0]), AcceptErr (ErrorString ''too many open files'')])
          0 []))"]
  by (simp add: run_defs ServeConn_defs ex_server_def Config_zero_def ex_conn_def ex_helpers_def
      wrapError_def format_bytes_def decimal.simps digit_def)

text \<open>
  The claim C4 as it was stated fails when the shutdown signal is raised: after
  \<open>ListenAndServe\<close>, a call of \<open>Shutdown\<close> closes the listener, \<open>Accept\<close> returns the
  error of the closed listener, and \<open>Serve\<close> takes the shutdown case and returns
  nil, not that error, whether \<open>Accept\<close> returns after \<open>Serve\<close> does (the first run)
  or before (the second); the accepting goroutine stays blocked in \<open>errs <- err\<close>.
\<close>

theorem Serve_accept_error_counterexample:
  "ListenAndServe (ex_server None) (ex_listeners []) (Inr 0) () = Inr (ex_serving None [] ())
   \<and> map_option acceptor
       (run ex_helpers [CallShutdown, RecvShutdown, DoAccept] (ex_serving None [] ()))
     = Some (SendingErr net_ErrClosed)
   \<and> map_option loop
       (run ex_helpers [CallShutdown, RecvShutdown, DoAccept] (ex_serving None [] ()))
     = Some (Returned None)
   \<and> map_option acceptor
       (run ex_helpers [CallShutdown, DoAccept, RecvShutdown] (ex_serving None [] ()))
     = Some (SendingErr net_ErrClosed)
   \<and> map_option loop
       (run ex_helpers [CallShutdown, DoAccept, RecvShutdown] (ex_serving None [] ()))
     = Some (Returned None)"
  by (simp add: ListenAndServe_def run_defs ex_server_def Config_zero_def)




end
